theory Spec2Isabelle
  imports Main "HOL-Library.Word" "HOL-Library.Code_Target_Numeral"
begin

unbundle bit_operations_syntax

section \<open>The import directory parser of the PE package\<close>

text \<open>
  A shallow embedding of the Go file that parses the import directory of a PE image:
  \<^verbatim>\<open>parseImportDirectory\<close>, \<^verbatim>\<open>getImportTable32\<close>, \<^verbatim>\<open>getImportTable64\<close>,
  \<^verbatim>\<open>parseImports32\<close> and \<^verbatim>\<open>parseImports64\<close>. Go's \<^verbatim>\<open>uint32\<close> and \<^verbatim>\<open>uint64\<close> are
  \<open>32 word\<close> and \<open>64 word\<close>, so that \<open>+\<close> and \<open>-\<close> wrap around as they do in Go.
\<close>

type_synonym byte = "8 word"
type_synonym uint16 = "16 word"
type_synonym uint32 = "32 word"
type_synonym uint64 = "64 word"

subsection \<open>Constants\<close>

definition imageOrdinalFlag32 :: uint32 where
  "imageOrdinalFlag32 = 0x80000000"

definition imageOrdinalFlag64 :: uint64 where
  "imageOrdinalFlag64 = 0x8000000000000000"

definition maxRepeatedAddresses :: uint32 where
  "maxRepeatedAddresses = 16"

definition maxAddressSpread :: uint32 where
  "maxAddressSpread = 0x8000000"

definition addressMask32 :: uint32 where
  "addressMask32 = 0x7fffffff"

definition addressMask64 :: uint64 where
  "addressMask64 = 0x7fffffffffffffff"

subsection \<open>Data\<close>

record ImageImportDescriptor =
  OriginalFirstThunk :: uint32
  TimeDateStamp :: uint32
  ForwarderChain :: uint32
  Name :: uint32
  FirstThunk :: uint32

record ImportFunction =
  Name :: string
  Hint :: uint16
  Offset :: uint32
  ByOrdinal :: bool
  Ordinal :: uint32
  Address :: uint32
  Bound :: uint32

record Import =
  Offset :: uint32
  Name :: string
  Functions :: "ImportFunction list"
  Descriptor :: ImageImportDescriptor

text \<open>
  The receiver \<^verbatim>\<open>pe *File\<close>. Its type and the helpers the parser calls
  (\<^verbatim>\<open>getOffsetFromRva\<close>, \<^verbatim>\<open>getData\<close>, \<^verbatim>\<open>getStringAtRVA\<close>, \<^verbatim>\<open>IsValidFunctionName\<close>,
  \<^verbatim>\<open>IsValidDosFilename\<close>) are declared in files that are not among the sources, so they
  are parameters here: fields of the record. \<^verbatim>\<open>getData\<close> returns \<^verbatim>\<open>([]byte, error)\<close>;
  \<open>None\<close> stands for its error. \<^verbatim>\<open>pe.OptionalHeader.ImageBase\<close> is added to two
  \<^verbatim>\<open>uint32\<close> values without a conversion, so it is a \<^verbatim>\<open>uint32\<close>. \<^verbatim>\<open>pe.Imports\<close>, the
  one field the parser writes, is passed and returned separately.
\<close>

record File =
  data :: "byte list"
  Is64 :: bool
  ImageBase :: uint32
  getOffsetFromRva :: "uint32 \<Rightarrow> uint32"
  getData :: "uint32 \<Rightarrow> uint32 \<Rightarrow> byte list option"
  getStringAtRVA :: "uint32 \<Rightarrow> string"
  IsValidFunctionName :: "string \<Rightarrow> bool"
  IsValidDosFilename :: "string \<Rightarrow> bool"

subsection \<open>Errors and panics\<close>

text \<open>
  The error values the parser returns, one constructor for each \<^verbatim>\<open>errors.New\<close> of the
  source, the two errors of \<^verbatim>\<open>binary.Read\<close> on a short buffer, and the error of
  \<^verbatim>\<open>getData\<close>. A run-time panic (a slice or an index out of range) is not an error value:
  it is the third outcome.
\<close>

datatype error =
    EOF
  | ErrUnexpectedEOF
  | InvalidDataAtRVA uint32
  | BogusData
  | AddressesTooSpread
  | Beyond
  | DamagedImportTable
  | MissingOrdinalOrName
  | TooManyInvalidNames
  | GetDataError

datatype 'a outcome = Ok 'a | Err error | Panic

subsection \<open>Reading bytes\<close>

text \<open>
  The slice expression \<^verbatim>\<open>pe.data[lo : hi]\<close> with \<^verbatim>\<open>uint32\<close> bounds: it panics when
  \<open>lo > hi\<close> or \<open>hi\<close> is beyond the buffer (whose capacity is its length: the file's
  bytes), which is \<open>None\<close> here. The bound \<^verbatim>\<open>offset+size\<close> is a \<^verbatim>\<open>uint32\<close> sum and
  wraps around before the slice is taken.
\<close>

definition slice :: "byte list \<Rightarrow> uint32 \<Rightarrow> uint32 \<Rightarrow> byte list option" where
  "slice d lo hi =
     (if unat lo \<le> unat hi \<and> unat hi \<le> length d
      then Some (take (unat hi - unat lo) (drop (unat lo) d))
      else None)"

text \<open>
  \<^verbatim>\<open>binary.Read\<close> of a fixed-size value of \<open>n\<close> bytes from a \<^verbatim>\<open>bytes.Reader\<close> over
  \<open>buf\<close>: \<^verbatim>\<open>io.ReadFull\<close> gives \<^verbatim>\<open>io.EOF\<close> when nothing could be read and
  \<^verbatim>\<open>io.ErrUnexpectedEOF\<close> when the buffer ends early.
\<close>

definition binaryRead :: "nat \<Rightarrow> byte list \<Rightarrow> byte list outcome" where
  "binaryRead n buf =
     (if n \<le> length buf then Ok (take n buf)
      else if buf = [] then Err EOF
      else Err ErrUnexpectedEOF)"

fun le_nat :: "byte list \<Rightarrow> nat" where
  "le_nat [] = 0"
| "le_nat (b # bs) = unat b + 256 * le_nat bs"

definition le16 :: "byte list \<Rightarrow> uint16" where
  "le16 bs = word_of_nat (le_nat (take 2 bs))"

definition le32 :: "byte list \<Rightarrow> uint32" where
  "le32 bs = word_of_nat (le_nat (take 4 bs))"

definition le64 :: "byte list \<Rightarrow> uint64" where
  "le64 bs = word_of_nat (le_nat (take 8 bs))"

definition decodeDescriptor :: "byte list \<Rightarrow> ImageImportDescriptor" where
  "decodeDescriptor bs =
     \<lparr> OriginalFirstThunk = le32 bs,
       TimeDateStamp = le32 (drop 4 bs),
       ForwarderChain = le32 (drop 8 bs),
       ImageImportDescriptor.Name = le32 (drop 12 bs),
       FirstThunk = le32 (drop 16 bs) \<rparr>"

definition zeroDescriptor :: ImageImportDescriptor where
  "zeroDescriptor =
     \<lparr> OriginalFirstThunk = 0, TimeDateStamp = 0, ForwarderChain = 0,
       ImageImportDescriptor.Name = 0, FirstThunk = 0 \<rparr>"

subsection \<open>The thunk table reader\<close>

text \<open>
  The loop of \<^verbatim>\<open>getImportTable32\<close>. Its arguments after the file are the loop's
  variables: \<open>startRVA\<close>, \<open>maxLen\<close>, \<open>minAddressOfData\<close> and \<open>maxAddressOfData\<close>
  (no statement of the loop assigns to them), the cursor \<open>rva\<close>, \<open>repeatedAddress\<close>,
  the keys of the map \<open>addressesOfData\<close>, and \<open>retVal\<close>. The map \<^verbatim>\<open>thunkTable\<close> is
  written and never read; it is left out. The loop has no bound of its own, so the result
  is an \<open>option\<close>: \<open>None\<close> when it runs forever.
\<close>

partial_function (option) getImportTable32_loop ::
  "File \<Rightarrow> uint32 \<Rightarrow> uint32 \<Rightarrow> uint32 \<Rightarrow> uint32 \<Rightarrow> uint32 \<Rightarrow> uint32 \<Rightarrow> uint32 set
     \<Rightarrow> uint32 list \<Rightarrow> uint32 list outcome option" where
  "getImportTable32_loop pe startRVA maxLen minAddressOfData maxAddressOfData
       rva repeatedAddress addressesOfData retVal =
     (if rva \<ge> startRVA + maxLen then Some (Ok retVal)
      else if repeatedAddress \<ge> maxAddressSpread then Some (Err BogusData)
      else if maxAddressOfData - minAddressOfData > maxAddressSpread
        then Some (Err AddressesTooSpread)
      else
        (case slice (data pe) (getOffsetFromRva pe rva) (getOffsetFromRva pe rva + 4) of
           None \<Rightarrow> Some Panic
         | Some buf \<Rightarrow>
            (case binaryRead 4 buf of
               Panic \<Rightarrow> Some Panic
             | Err e \<Rightarrow> Some (Err (InvalidDataAtRVA rva))
             | Ok bs \<Rightarrow>
                 if le32 bs = 0 then Some (Ok retVal)
                 else if le32 bs \<ge> startRVA \<and> le32 bs \<le> rva then Some (Ok retVal)
                 else if le32 bs AND imageOrdinalFlag32 > 0 then
                   (if le32 bs AND 0x7fffffff > 0xffff then Some (Err Beyond)
                    else getImportTable32_loop pe startRVA maxLen minAddressOfData
                           maxAddressOfData (rva + 4) repeatedAddress addressesOfData
                           (retVal @ [le32 bs]))
                 else if le32 bs \<in> addressesOfData then
                   getImportTable32_loop pe startRVA maxLen minAddressOfData
                     maxAddressOfData (rva + 4) (repeatedAddress + 1) addressesOfData
                     (retVal @ [le32 bs])
                 else
                   getImportTable32_loop pe startRVA maxLen minAddressOfData
                     maxAddressOfData (rva + 4) repeatedAddress
                     (insert (le32 bs) addressesOfData) (retVal @ [le32 bs]))))"

declare getImportTable32_loop.simps [code]

definition getImportTable32 :: "File \<Rightarrow> uint32 \<Rightarrow> uint32 \<Rightarrow> uint32 list outcome option" where
  "getImportTable32 pe rva maxLen =
     getImportTable32_loop pe rva maxLen (NOT 0) 0 rva 0 {} []"

text \<open>
  \<^verbatim>\<open>getImportTable64\<close>: the same loop over 8-byte entries. The cursor, the bound and
  the two address extremes stay \<^verbatim>\<open>uint32\<close>; the entry and the keys of the map are
  \<^verbatim>\<open>uint64\<close>, and the overlap test widens \<open>startRVA\<close> and \<open>rva\<close> with
  \<^verbatim>\<open>uint64(...)\<close>.
\<close>

partial_function (option) getImportTable64_loop ::
  "File \<Rightarrow> uint32 \<Rightarrow> uint32 \<Rightarrow> uint32 \<Rightarrow> uint32 \<Rightarrow> uint32 \<Rightarrow> uint32 \<Rightarrow> uint64 set
     \<Rightarrow> uint64 list \<Rightarrow> uint64 list outcome option" where
  "getImportTable64_loop pe startRVA maxLen minAddressOfData maxAddressOfData
       rva repeatedAddress addressesOfData retVal =
     (if rva \<ge> startRVA + maxLen then Some (Ok retVal)
      else if repeatedAddress \<ge> maxAddressSpread then Some (Err BogusData)
      else if maxAddressOfData - minAddressOfData > maxAddressSpread
        then Some (Err AddressesTooSpread)
      else
        (case slice (data pe) (getOffsetFromRva pe rva) (getOffsetFromRva pe rva + 8) of
           None \<Rightarrow> Some Panic
         | Some buf \<Rightarrow>
            (case binaryRead 8 buf of
               Panic \<Rightarrow> Some Panic
             | Err e \<Rightarrow> Some (Err (InvalidDataAtRVA rva))
             | Ok bs \<Rightarrow>
                 if le64 bs = 0 then Some (Ok retVal)
                 else if le64 bs \<ge> ucast startRVA \<and> le64 bs \<le> ucast rva
                   then Some (Ok retVal)
                 else if le64 bs AND imageOrdinalFlag64 > 0 then
                   (if le64 bs AND 0x7fffffff > 0xffff then Some (Err Beyond)
                    else getImportTable64_loop pe startRVA maxLen minAddressOfData
                           maxAddressOfData (rva + 8) repeatedAddress addressesOfData
                           (retVal @ [le64 bs]))
                 else if le64 bs \<in> addressesOfData then
                   getImportTable64_loop pe startRVA maxLen minAddressOfData
                     maxAddressOfData (rva + 8) (repeatedAddress + 1) addressesOfData
                     (retVal @ [le64 bs])
                 else
                   getImportTable64_loop pe startRVA maxLen minAddressOfData
                     maxAddressOfData (rva + 8) repeatedAddress
                     (insert (le64 bs) addressesOfData) (retVal @ [le64 bs]))))"

declare getImportTable64_loop.simps [code]

definition getImportTable64 :: "File \<Rightarrow> uint32 \<Rightarrow> uint32 \<Rightarrow> uint64 list outcome option" where
  "getImportTable64 pe rva maxLen =
     getImportTable64_loop pe rva maxLen (NOT 0) 0 rva 0 {} []"

subsection \<open>The import entry resolver\<close>

text \<open>
  Indexing a Go slice, \<^verbatim>\<open>t[idx]\<close> with a \<^verbatim>\<open>uint32\<close> index: a panic out of range.
  \<^verbatim>\<open>uint32(len(t))\<close> is \<open>len32 t\<close>.
\<close>

definition index :: "'a list \<Rightarrow> uint32 \<Rightarrow> 'a outcome" where
  "index t idx = (if unat idx < length t then Ok (t ! unat idx) else Panic)"

definition len32 :: "'a list \<Rightarrow> uint32" where
  "len32 t = word_of_nat (length t)"

definition invalid :: string where
  "invalid = ''*invalid*''"

definition emptyImportFunction :: ImportFunction where
  "emptyImportFunction =
     \<lparr> ImportFunction.Name = [], Hint = 0, ImportFunction.Offset = 0, ByOrdinal = False,
       Ordinal = 0, Address = 0, Bound = 0 \<rparr>"

text \<open>
  The first part of the body of the \<^verbatim>\<open>for idx\<close> loop of \<^verbatim>\<open>parseImports32\<close>, where
  \<open>t\<close> is \<^verbatim>\<open>table[idx].AddressOfData\<close>: the fields read from the entry.
  \<^verbatim>\<open>binary.LittleEndian.Uint16\<close> panics on fewer than two bytes.
\<close>

definition readEntry32 :: "File \<Rightarrow> uint32 \<Rightarrow> ImportFunction outcome" where
  "readEntry32 pe t =
     (if t > 0 then
        (if t AND imageOrdinalFlag32 > 0 then
           Ok (emptyImportFunction \<lparr> ByOrdinal := True, Ordinal := t AND 0xffff \<rparr>)
         else
           (case getData pe (t AND addressMask32) 2 of
              None \<Rightarrow> Err GetDataError
            | Some d \<Rightarrow>
                if length d < 2 then Panic
                else Ok (emptyImportFunction
                  \<lparr> ImportFunction.Name :=
                      (if IsValidFunctionName pe (getStringAtRVA pe (t + 2))
                       then getStringAtRVA pe (t + 2) else invalid),
                    Hint := le16 d,
                    ImportFunction.Offset := t,
                    ByOrdinal := False \<rparr>)))
      else Ok emptyImportFunction)"

text \<open>
  The bound address: \<^verbatim>\<open>len(iat) > 0 && len(ilt) > 0 && ilt[idx] != iat[idx]\<close>, with the
  two index expressions evaluated from left to right.
\<close>

definition boundAddress32 :: "uint32 list \<Rightarrow> uint32 list \<Rightarrow> uint32 \<Rightarrow> uint32 outcome" where
  "boundAddress32 ilt iat idx =
     (if length iat > 0 \<and> length ilt > 0 then
        (case index ilt idx of
           Panic \<Rightarrow> Panic
         | Err e \<Rightarrow> Err e
         | Ok l \<Rightarrow>
            (case index iat idx of
               Panic \<Rightarrow> Panic
             | Err e \<Rightarrow> Err e
             | Ok a \<Rightarrow> Ok (if l \<noteq> a then a else 0)))
      else Ok 0)"

function parseImports32_loop ::
  "File \<Rightarrow> ImageImportDescriptor \<Rightarrow> uint32 list \<Rightarrow> uint32 list \<Rightarrow> uint32 list
     \<Rightarrow> uint32 \<Rightarrow> uint32 \<Rightarrow> ImportFunction list \<Rightarrow> ImportFunction list outcome" where
  "parseImports32_loop pe importDesc ilt iat table idx numInvalid importedFunctions =
     (if \<not> idx < len32 table then Ok importedFunctions
      else
        (case index table idx of
           Panic \<Rightarrow> Panic
         | Err e \<Rightarrow> Err e
         | Ok t \<Rightarrow>
            (case readEntry32 pe t of
               Panic \<Rightarrow> Panic
             | Err e \<Rightarrow> Err e
             | Ok imp0 \<Rightarrow>
                (case boundAddress32 ilt iat idx of
                   Panic \<Rightarrow> Panic
                 | Err e \<Rightarrow> Err e
                 | Ok b \<Rightarrow>
                     if Ordinal imp0 = 0 \<and> \<not> length (ImportFunction.Name imp0) > 0
                       then Err MissingOrdinalOrName
                     else if ImportFunction.Name imp0 = invalid then
                       (if numInvalid > 1000 \<and> numInvalid = idx then Err TooManyInvalidNames
                        else parseImports32_loop pe importDesc ilt iat table (idx + 1)
                               (numInvalid + 1) importedFunctions)
                     else if Ordinal imp0 > 0 \<or> length (ImportFunction.Name imp0) > 0 then
                       parseImports32_loop pe importDesc ilt iat table (idx + 1) numInvalid
                         (importedFunctions @
                            [imp0 \<lparr> Address := FirstThunk importDesc + ImageBase pe + idx * 4,
                                    Bound := b \<rparr>])
                     else
                       parseImports32_loop pe importDesc ilt iat table (idx + 1) numInvalid
                         importedFunctions))))"
  by pat_completeness auto

text \<open>
  The loop ends: \<open>idx\<close> stays below \<^verbatim>\<open>uint32(len(table))\<close>, so \<^verbatim>\<open>idx++\<close> does not
  wrap around.
\<close>

termination parseImports32_loop
  by (relation "measure (\<lambda>(pe, importDesc, ilt, iat, table, idx, numInvalid, fns).
        unat (len32 table) - unat idx)")
     (simp, (clarsimp, unat_arith)+)

text \<open>
  The part of \<^verbatim>\<open>parseImports32\<close> after the two table reads. The last \<^verbatim>\<open>else\<close> of the
  table selection returns the \<^verbatim>\<open>err\<close> of the second read, which is \<^verbatim>\<open>nil\<close> there;
  the test before it returns first, so the branch is never taken.
\<close>

definition resolveImports32 ::
  "File \<Rightarrow> ImageImportDescriptor \<Rightarrow> uint32 list \<Rightarrow> uint32 list \<Rightarrow> ImportFunction list outcome"
  where
  "resolveImports32 pe importDesc ilt iat =
     (if length iat = 0 \<and> length ilt = 0 then Err DamagedImportTable
      else if length ilt > 0 then parseImports32_loop pe importDesc ilt iat ilt 0 0 []
      else if length iat > 0 then parseImports32_loop pe importDesc ilt iat iat 0 0 []
      else Ok [])"

definition parseImports32 ::
  "File \<Rightarrow> ImageImportDescriptor \<Rightarrow> uint32 \<Rightarrow> ImportFunction list outcome option" where
  "parseImports32 pe importDesc maxLen =
     (case getImportTable32 pe (OriginalFirstThunk importDesc) maxLen of
        None \<Rightarrow> None
      | Some Panic \<Rightarrow> Some Panic
      | Some (Err e) \<Rightarrow> Some (Err e)
      | Some (Ok ilt) \<Rightarrow>
         (case getImportTable32 pe (FirstThunk importDesc) maxLen of
            None \<Rightarrow> None
          | Some Panic \<Rightarrow> Some Panic
          | Some (Err e) \<Rightarrow> Some (Err e)
          | Some (Ok iat) \<Rightarrow> Some (resolveImports32 pe importDesc ilt iat)))"

text \<open>
  \<^verbatim>\<open>parseImports64\<close>: the entries are \<^verbatim>\<open>uint64\<close>; \<^verbatim>\<open>uint32(...)\<close> keeps the low
  32 bits (\<open>ucast\<close>).
\<close>

definition readEntry64 :: "File \<Rightarrow> uint64 \<Rightarrow> ImportFunction outcome" where
  "readEntry64 pe t =
     (if t > 0 then
        (if t AND imageOrdinalFlag64 > 0 then
           Ok (emptyImportFunction \<lparr> ByOrdinal := True, Ordinal := ucast t AND 0xffff \<rparr>)
         else
           (case getData pe (ucast (t AND addressMask64)) 2 of
              None \<Rightarrow> Err GetDataError
            | Some d \<Rightarrow>
                if length d < 2 then Panic
                else Ok (emptyImportFunction
                  \<lparr> ImportFunction.Name :=
                      (if IsValidFunctionName pe (getStringAtRVA pe (ucast (t + 2)))
                       then getStringAtRVA pe (ucast (t + 2)) else invalid),
                    Hint := le16 d,
                    ImportFunction.Offset := ucast t,
                    ByOrdinal := False \<rparr>)))
      else Ok emptyImportFunction)"

definition boundAddress64 :: "uint64 list \<Rightarrow> uint64 list \<Rightarrow> uint32 \<Rightarrow> uint32 outcome" where
  "boundAddress64 ilt iat idx =
     (if length iat > 0 \<and> length ilt > 0 then
        (case index ilt idx of
           Panic \<Rightarrow> Panic
         | Err e \<Rightarrow> Err e
         | Ok l \<Rightarrow>
            (case index iat idx of
               Panic \<Rightarrow> Panic
             | Err e \<Rightarrow> Err e
             | Ok a \<Rightarrow> Ok (if l \<noteq> a then ucast a else 0)))
      else Ok 0)"

function parseImports64_loop ::
  "File \<Rightarrow> ImageImportDescriptor \<Rightarrow> uint64 list \<Rightarrow> uint64 list \<Rightarrow> uint64 list
     \<Rightarrow> uint32 \<Rightarrow> uint32 \<Rightarrow> ImportFunction list \<Rightarrow> ImportFunction list outcome" where
  "parseImports64_loop pe importDesc ilt iat table idx numInvalid importedFunctions =
     (if \<not> idx < len32 table then Ok importedFunctions
      else
        (case index table idx of
           Panic \<Rightarrow> Panic
         | Err e \<Rightarrow> Err e
         | Ok t \<Rightarrow>
            (case readEntry64 pe t of
               Panic \<Rightarrow> Panic
             | Err e \<Rightarrow> Err e
             | Ok imp0 \<Rightarrow>
                (case boundAddress64 ilt iat idx of
                   Panic \<Rightarrow> Panic
                 | Err e \<Rightarrow> Err e
                 | Ok b \<Rightarrow>
                     if Ordinal imp0 = 0 \<and> \<not> length (ImportFunction.Name imp0) > 0
                       then Err MissingOrdinalOrName
                     else if ImportFunction.Name imp0 = invalid then
                       (if numInvalid > 1000 \<and> numInvalid = idx then Err TooManyInvalidNames
                        else parseImports64_loop pe importDesc ilt iat table (idx + 1)
                               (numInvalid + 1) importedFunctions)
                     else if Ordinal imp0 > 0 \<or> length (ImportFunction.Name imp0) > 0 then
                       parseImports64_loop pe importDesc ilt iat table (idx + 1) numInvalid
                         (importedFunctions @
                            [imp0 \<lparr> Address := FirstThunk importDesc + ImageBase pe + idx * 8,
                                    Bound := b \<rparr>])
                     else
                       parseImports64_loop pe importDesc ilt iat table (idx + 1) numInvalid
                         importedFunctions))))"
  by pat_completeness auto

termination parseImports64_loop
  by (relation "measure (\<lambda>(pe, importDesc, ilt, iat, table, idx, numInvalid, fns).
        unat (len32 table) - unat idx)")
     (simp, (clarsimp, unat_arith)+)

definition resolveImports64 ::
  "File \<Rightarrow> ImageImportDescriptor \<Rightarrow> uint64 list \<Rightarrow> uint64 list \<Rightarrow> ImportFunction list outcome"
  where
  "resolveImports64 pe importDesc ilt iat =
     (if length iat = 0 \<and> length ilt = 0 then Err DamagedImportTable
      else if length ilt > 0 then parseImports64_loop pe importDesc ilt iat ilt 0 0 []
      else if length iat > 0 then parseImports64_loop pe importDesc ilt iat iat 0 0 []
      else Ok [])"

definition parseImports64 ::
  "File \<Rightarrow> ImageImportDescriptor \<Rightarrow> uint32 \<Rightarrow> ImportFunction list outcome option" where
  "parseImports64 pe importDesc maxLen =
     (case getImportTable64 pe (OriginalFirstThunk importDesc) maxLen of
        None \<Rightarrow> None
      | Some Panic \<Rightarrow> Some Panic
      | Some (Err e) \<Rightarrow> Some (Err e)
      | Some (Ok ilt) \<Rightarrow>
         (case getImportTable64 pe (FirstThunk importDesc) maxLen of
            None \<Rightarrow> None
          | Some Panic \<Rightarrow> Some Panic
          | Some (Err e) \<Rightarrow> Some (Err e)
          | Some (Ok iat) \<Rightarrow> Some (resolveImports64 pe importDesc ilt iat)))"

subsection \<open>The import directory walker\<close>

text \<open>
  \<^verbatim>\<open>Max\<close> is declared in a file that is not among the sources; it is taken to be the
  larger of its two \<^verbatim>\<open>uint32\<close> arguments.
\<close>

definition Max :: "uint32 \<Rightarrow> uint32 \<Rightarrow> uint32" where
  "Max x y = (if x < y then y else x)"

text \<open>
  The bound \<^verbatim>\<open>maxLen\<close> that one pass of the loop of \<^verbatim>\<open>parseImportDirectory\<close> computes,
  from the file's bytes, the descriptor's file offset, the cursor \<open>rva\<close> (already moved
  past the descriptor) and the descriptor.
\<close>

definition thunkMaxLen ::
  "byte list \<Rightarrow> uint32 \<Rightarrow> uint32 \<Rightarrow> ImageImportDescriptor \<Rightarrow> uint32" where
  "thunkMaxLen d fileOffset rva importDesc =
     (if rva > OriginalFirstThunk importDesc \<or> rva > FirstThunk importDesc
      then Max (rva - OriginalFirstThunk importDesc) (rva - FirstThunk importDesc)
      else len32 d - fileOffset)"

text \<open>
  The head of the loop of \<^verbatim>\<open>parseImportDirectory\<close>: the descriptor read from the
  \<open>size\<close> bytes at the file offset of \<open>rva\<close>. \<^verbatim>\<open>binary.Size(importDesc)\<close> is 20.
\<close>

definition readDescriptor :: "File \<Rightarrow> uint32 \<Rightarrow> uint32 \<Rightarrow> ImageImportDescriptor outcome" where
  "readDescriptor pe rva size' =
     (case slice (data pe) (getOffsetFromRva pe rva) (getOffsetFromRva pe rva + size') of
        None \<Rightarrow> Panic
      | Some buf \<Rightarrow>
         (case binaryRead 20 buf of
            Panic \<Rightarrow> Panic
          | Err e \<Rightarrow> Err e
          | Ok bs \<Rightarrow> Ok (decodeDescriptor bs)))"

text \<open>The call chosen by \<^verbatim>\<open>pe.Is64\<close>.\<close>

definition parseImports ::
  "File \<Rightarrow> ImageImportDescriptor \<Rightarrow> uint32 \<Rightarrow> ImportFunction list outcome option" where
  "parseImports pe importDesc maxLen =
     (if Is64 pe then parseImports64 pe importDesc maxLen
      else parseImports32 pe importDesc maxLen)"

text \<open>
  The \<^verbatim>\<open>Import\<close> that one pass of the loop appends to \<^verbatim>\<open>pe.Imports\<close>, for the
  descriptor read at \<open>rva\<close>.
\<close>

definition newImport ::
  "File \<Rightarrow> uint32 \<Rightarrow> ImageImportDescriptor \<Rightarrow> ImportFunction list \<Rightarrow> Import" where
  "newImport pe rva importDesc importedFunctions =
     \<lparr> Import.Offset = getOffsetFromRva pe rva,
       Import.Name = getStringAtRVA pe (ImageImportDescriptor.Name importDesc),
       Functions = importedFunctions,
       Descriptor = importDesc \<rparr>"

text \<open>
  \<^verbatim>\<open>parseImportDirectory\<close>. The result pairs what the call returns (\<open>Ok ()\<close> for
  \<^verbatim>\<open>nil\<close>) with \<^verbatim>\<open>pe.Imports\<close> as the call leaves it; \<open>None\<close> when the loop runs
  forever.
\<close>

partial_function (option) parseImportDirectory ::
  "File \<Rightarrow> uint32 \<Rightarrow> uint32 \<Rightarrow> Import list \<Rightarrow> (unit outcome \<times> Import list) option" where
  "parseImportDirectory pe rva size' Imports =
     (case readDescriptor pe rva size' of
        Panic \<Rightarrow> Some (Panic, Imports)
      | Err e \<Rightarrow> Some (Err e, Imports)
      | Ok importDesc \<Rightarrow>
          if importDesc = zeroDescriptor then Some (Ok (), Imports)
          else
            (case parseImports pe importDesc
                    (thunkMaxLen (data pe) (getOffsetFromRva pe rva) (rva + 20) importDesc) of
               None \<Rightarrow> None
             | Some Panic \<Rightarrow> Some (Panic, Imports)
             | Some (Err e) \<Rightarrow> Some (Err e, Imports)
             | Some (Ok importedFunctions) \<Rightarrow>
                 if \<not> IsValidDosFilename pe
                       (getStringAtRVA pe (ImageImportDescriptor.Name importDesc))
                 then parseImportDirectory pe (rva + 20) size' Imports
                 else parseImportDirectory pe (rva + 20) size'
                        (Imports @ [newImport pe rva importDesc importedFunctions])))"

declare parseImportDirectory.simps [code]

subsection \<open>An image for the examples\<close>

text \<open>
  A 32-bit image without sections, so that an RVA is a file offset, loaded at
  \<open>0x400000\<close>. \<open>getData\<close> reads from the file's bytes; the strings of the image are
  given by a table; a function name or a file name is valid here when it is not empty.
\<close>

definition image :: "byte list \<Rightarrow> (uint32 \<Rightarrow> string) \<Rightarrow> File" where
  "image bytes names =
     \<lparr> data = bytes, Is64 = False, ImageBase = 0x400000,
       getOffsetFromRva = (\<lambda>rva. rva),
       getData = (\<lambda>rva n. if unat rva + unat n \<le> length bytes
                             then Some (take (unat n) (drop (unat rva) bytes)) else None),
       getStringAtRVA = names,
       IsValidFunctionName = (\<lambda>s. s \<noteq> []),
       IsValidDosFilename = (\<lambda>s. s \<noteq> []) \<rparr>"

definition noNames :: "uint32 \<Rightarrow> string" where
  "noNames rva = []"

text \<open>
  A lookup table at RVA 0 whose twenty entries all hold the address \<open>0x1000\<close>, followed
  by the zero entry.
\<close>

definition twentyRepeats :: "byte list" where
  "twentyRepeats =
       [0, 16, 0, 0, 0, 16, 0, 0, 0, 16, 0, 0, 0, 16, 0, 0, 0, 16, 0, 0,
       0, 16, 0, 0, 0, 16, 0, 0, 0, 16, 0, 0, 0, 16, 0, 0, 0, 16, 0, 0,
       0, 16, 0, 0, 0, 16, 0, 0, 0, 16, 0, 0, 0, 16, 0, 0, 0, 16, 0, 0,
       0, 16, 0, 0, 0, 16, 0, 0, 0, 16, 0, 0, 0, 16, 0, 0, 0, 16, 0, 0,
       0, 0, 0, 0]"

text \<open>
  A table at RVA 0 with the two addresses \<open>0x1000\<close> and \<open>0x10001000\<close>, which lie
  256 MiB apart, followed by the zero entry.
\<close>

definition spreadTable :: "byte list" where
  "spreadTable = [0, 16, 0, 0, 0, 16, 0, 16, 0, 0, 0, 0]"

text \<open>
  A 64-bit table at RVA 0 with the one entry \<open>0x8000000100000000\<close> (the ordinal flag
  and bit 32), followed by the zero entry.
\<close>

definition wideOrdinalTable :: "byte list" where
  "wideOrdinalTable = [0, 0, 0, 0, 1, 0, 0, 128, 0, 0, 0, 0, 0, 0, 0, 0]"

text \<open>
  A file of twenty bytes: one descriptor whose two thunk tables are said to start at
  RVA \<open>0x7FFFFFF0\<close>, far beyond the file.
\<close>

definition farThunkFile :: "byte list" where
  "farThunkFile =
       [240, 255, 255, 127, 0, 0, 0, 0, 0, 0, 0, 0, 0, 0, 0, 0, 240, 255, 255, 127]"

text \<open>
  A file of 44 bytes whose directory starts at RVA 20. The descriptor at offset 20 puts
  its lookup table at RVA 14 and its address table at RVA 4, both before the end of the
  descriptor at RVA 40; the four bytes after the descriptor are not zero, and the file
  ends there.
\<close>

definition backwardTables :: "byte list" where
  "backwardTables =
       [0, 0, 0, 0, 0, 0, 0, 0, 0, 0, 0, 0, 0, 0, 0, 0, 1, 0, 0, 0,
       14, 0, 0, 0, 1, 0, 0, 0, 1, 0, 0, 0, 1, 0, 0, 0, 4, 0, 0, 0,
       1, 0, 0, 0]"

definition backwardDescriptor :: ImageImportDescriptor where
  "backwardDescriptor =
     \<lparr> OriginalFirstThunk = 14, TimeDateStamp = 1, ForwarderChain = 1,
       ImageImportDescriptor.Name = 1, FirstThunk = 4 \<rparr>"

text \<open>
  A file of 56 bytes: a descriptor at offset 0 (lookup table at RVA 40, address table at
  RVA 48, name at RVA \<open>0x70\<close>), the zero descriptor at offset 20, and two tables of one
  ordinal entry and a zero entry each. The one string of the image is the library name.
\<close>

definition forwardTables :: "byte list" where
  "forwardTables =
       [40, 0, 0, 0, 0, 0, 0, 0, 0, 0, 0, 0, 112, 0, 0, 0, 48, 0, 0, 0,
       0, 0, 0, 0, 0, 0, 0, 0, 0, 0, 0, 0, 0, 0, 0, 0, 0, 0, 0, 0,
       1, 0, 0, 128, 0, 0, 0, 0, 1, 0, 0, 128, 0, 0, 0, 0]"

definition forwardDescriptor :: ImageImportDescriptor where
  "forwardDescriptor =
     \<lparr> OriginalFirstThunk = 40, TimeDateStamp = 0, ForwarderChain = 0,
       ImageImportDescriptor.Name = 0x70, FirstThunk = 48 \<rparr>"

definition libraryName :: "uint32 \<Rightarrow> string" where
  "libraryName rva = (if rva = 0x70 then ''A.DLL'' else [])"


text \<open>
  A file of 4048 bytes: a descriptor at offset 0 (lookup table at RVA 40, address table
  at RVA 4044, name at RVA \<open>0x70\<close>), the zero descriptor at offset 20, a lookup table
  of 1001 entries that all hold the address 4, and one zero entry, which ends the lookup
  table and is the whole address table. With \<open>libraryName\<close> the string at RVA 6, the
  name of every entry, is empty, which is not a valid function name.
\<close>

definition invalidNames :: "byte list" where
  "invalidNames =
     [40, 0, 0, 0, 0, 0, 0, 0, 0, 0, 0, 0, 112, 0, 0, 0, 204, 15, 0, 0] @
     replicate 20 0 @ concat (replicate 1001 [4, 0, 0, 0]) @ [0, 0, 0, 0]"

definition invalidNamesDescriptor :: ImageImportDescriptor where
  "invalidNamesDescriptor =
     \<lparr> OriginalFirstThunk = 40, TimeDateStamp = 0, ForwarderChain = 0,
       ImageImportDescriptor.Name = 0x70, FirstThunk = 4044 \<rparr>"

text \<open>
  The imports that the walk appends to \<^verbatim>\<open>pe.Imports\<close> for \<open>n\<close> descriptors in a row,
  the first one at \<open>rva\<close>, where \<open>d k\<close> is the descriptor number \<open>k\<close> and \<open>fns k\<close>
  its functions: one \<open>Import\<close> for each descriptor whose library name is a valid file
  name.
\<close>

definition keptImports ::
  "File \<Rightarrow> uint32 \<Rightarrow> (nat \<Rightarrow> ImageImportDescriptor) \<Rightarrow> (nat \<Rightarrow> ImportFunction list) \<Rightarrow> nat
     \<Rightarrow> Import list" where
  "keptImports pe rva d fns n =
     concat (map (\<lambda>k. if IsValidDosFilename pe (getStringAtRVA pe (ImageImportDescriptor.Name (d k)))
                       then [newImport pe (rva + 20 * word_of_nat k) (d k) (fns k)] else [])
                 [0..<n])"

text \<open>
  A file of 96 bytes: two descriptors at offsets 0 and 20, the zero descriptor at offset
  40, and at \<open>0x40\<close>, \<open>0x48\<close>, \<open>0x50\<close> and \<open>0x58\<close> four tables of one ordinal
  entry and a zero entry each. The two strings of the image are the library names.
\<close>

definition twoLibraries :: "byte list" where
  "twoLibraries =
       [64, 0, 0, 0, 0, 0, 0, 0, 0, 0, 0, 0, 112, 0, 0, 0, 72, 0, 0, 0,
       80, 0, 0, 0, 0, 0, 0, 0, 0, 0, 0, 0, 120, 0, 0, 0, 88, 0, 0, 0,
       0, 0, 0, 0, 0, 0, 0, 0, 0, 0, 0, 0, 0, 0, 0, 0, 0, 0, 0, 0,
       0, 0, 0, 0, 1, 0, 0, 128, 0, 0, 0, 0, 1, 0, 0, 128, 0, 0, 0, 0,
       2, 0, 0, 128, 0, 0, 0, 0, 2, 0, 0, 128, 0, 0, 0, 0]"

definition twoNames :: "uint32 \<Rightarrow> string" where
  "twoNames rva = (if rva = 0x70 then ''A.DLL'' else if rva = 0x78 then ''B.DLL'' else [])"

definition libraryA :: ImageImportDescriptor where
  "libraryA =
     \<lparr> OriginalFirstThunk = 0x40, TimeDateStamp = 0, ForwarderChain = 0,
       ImageImportDescriptor.Name = 0x70, FirstThunk = 0x48 \<rparr>"

definition libraryB :: ImageImportDescriptor where
  "libraryB =
     \<lparr> OriginalFirstThunk = 0x50, TimeDateStamp = 0, ForwarderChain = 0,
       ImageImportDescriptor.Name = 0x78, FirstThunk = 0x58 \<rparr>"

text \<open>A function imported by the ordinal \<open>n\<close>, with its address \<open>a\<close>.\<close>

definition byOrdinal :: "uint32 \<Rightarrow> uint32 \<Rightarrow> ImportFunction" where
  "byOrdinal n a =
     \<lparr> ImportFunction.Name = [], Hint = 0, ImportFunction.Offset = 0, ByOrdinal = True,
       Ordinal = n, Address = a, Bound = 0 \<rparr>"

text \<open>
  A file of 60 bytes: two equal descriptors at offsets 0 and 20, whose tables both start
  at RVA 40, and 20 zero bytes from offset 40 on, so that both tables are empty.
\<close>

definition damagedFirst :: "byte list" where
  "damagedFirst =
       [40, 0, 0, 0, 0, 0, 0, 0, 0, 0, 0, 0, 112, 0, 0, 0, 40, 0, 0, 0,
       40, 0, 0, 0, 0, 0, 0, 0, 0, 0, 0, 0, 112, 0, 0, 0, 40, 0, 0, 0,
       0, 0, 0, 0, 0, 0, 0, 0, 0, 0, 0, 0, 0, 0, 0, 0, 0, 0, 0, 0]"

definition damagedDescriptor :: ImageImportDescriptor where
  "damagedDescriptor =
     \<lparr> OriginalFirstThunk = 40, TimeDateStamp = 0, ForwarderChain = 0,
       ImageImportDescriptor.Name = 0x70, FirstThunk = 40 \<rparr>"

section \<open>Facts used by the evaluations\<close>

lemmas reader_defs =
  getImportTable32_def getImportTable32_loop.simps
  getImportTable64_def getImportTable64_loop.simps
  image_def slice_def binaryRead_def le16_def le32_def le64_def
  maxAddressSpread_def imageOrdinalFlag32_def imageOrdinalFlag64_def
  addressMask32_def addressMask64_def word_le_nat_alt word_less_nat_alt

lemmas walker_defs =
  parseImportDirectory.simps readDescriptor_def decodeDescriptor_def zeroDescriptor_def
  parseImports_def parseImports32_def parseImports64_def thunkMaxLen_def len32_def Max_def

lemmas resolver_defs =
  resolveImports32_def readEntry32_def boundAddress32_def index_def
  emptyImportFunction_def invalid_def

section \<open>The thunk table reader: repeated addresses (C1)\<close>

text \<open>
  C1 says that a thunk table read fails with the bogus-data error as soon as the count of
  repeated non-ordinal addresses reaches 16, so that a lookup table of 20 entries with the
  same address fails. The reader counts the repeats, but the test at the head of its loop
  compares the counter with \<open>maxAddressSpread\<close> (\<open>0x8000000\<close>); \<open>maxRepeatedAddresses\<close>
  (16) is used nowhere. The table of twenty equal entries, 19 repeats, is read to its
  zero entry and returned whole.
\<close>

theorem C1_twenty_repeats_are_accepted:
  "getImportTable32 (image twentyRepeats noNames) 0 0x1000 =
     Some (Ok [0x1000, 0x1000, 0x1000, 0x1000, 0x1000, 0x1000, 0x1000, 0x1000, 0x1000, 0x1000,
               0x1000, 0x1000, 0x1000, 0x1000, 0x1000, 0x1000, 0x1000, 0x1000, 0x1000, 0x1000])"
  by (simp add: reader_defs twentyRepeats_def)

section \<open>The thunk table reader: address spread (C2)\<close>

text \<open>
  C2 says that the reader tracks the least and the greatest non-ordinal address it has
  seen and fails with the address-spread error when they are more than 64 MiB apart. The
  reader declares \<open>minAddressOfData\<close> and \<open>maxAddressOfData\<close> and tests their
  difference, but no statement of the loop assigns to them: they keep \<open>0xFFFFFFFF\<close>
  and \<open>0\<close>, whose difference wraps around to 1. Two addresses 256 MiB apart are
  accepted.
\<close>

theorem C2_spread_addresses_are_accepted:
  "getImportTable32 (image spreadTable noNames) 0 0x1000 = Some (Ok [0x1000, 0x10001000])"
  by (simp add: reader_defs spreadTable_def)

section \<open>The thunk table reader: implausible ordinals (C5)\<close>

text \<open>
  C5 says that an entry with the ordinal flag set whose remaining bits (31 of them in a
  32-bit entry, 63 in a 64-bit entry) exceed \<open>0xFFFF\<close> makes the read fail. The 64-bit
  reader masks the entry with \<open>0x7fffffff\<close>, the 32-bit mask, so it looks at the low
  31 bits only: the entry \<open>0x8000000100000000\<close>, whose low 63 bits are \<open>0x100000000\<close>,
  is accepted.
\<close>

theorem C5_wide_ordinal_is_accepted:
  "getImportTable64 (image wideOrdinalTable noNames) 0 0x1000 =
     Some (Ok [0x8000000100000000])"
  by (simp add: reader_defs wideOrdinalTable_def)

section \<open>Reads outside the file (C4)\<close>

text \<open>
  C4 says that every read outside the file's bounds comes back to the caller as an error
  value, and that no input makes the parser index out of range. The parser takes the slice
  \<^verbatim>\<open>pe.data[offset : offset+size]\<close> before it calls \<^verbatim>\<open>binary.Read\<close>, and the slice
  expression panics when the window is not inside the buffer; the error test after
  \<^verbatim>\<open>binary.Read\<close> is reached only with a window that is inside. A descriptor that sends
  the thunk tables to RVA \<open>0x7FFFFFF0\<close> ends the call in a panic.
\<close>

theorem C4_far_thunk_table_panics:
  "parseImportDirectory (image farThunkFile noNames) 0 20 [] = Some (Panic, [])"
  by (simp add: reader_defs walker_defs farThunkFile_def)

section \<open>The all-zero descriptor (C8)\<close>

lemma le_nat_zeros: "le_nat (replicate n 0) = 0"
  by (induction n) simp_all

lemma le32_zeros: "le32 (replicate n 0) = 0"
  by (simp add: le32_def le_nat_zeros)

lemma decode_zeros: "decodeDescriptor (replicate 20 0) = zeroDescriptor"
  by (simp add: decodeDescriptor_def zeroDescriptor_def le32_zeros)

text \<open>A window of \<open>n\<close> bytes that lies inside a file of less than 4 GiB is sliced out.\<close>

lemma slice_window:
  assumes "unat off + unat n \<le> length d" and "length d < 2 ^ 32"
  shows "slice d off (off + n) = Some (take (unat n) (drop (unat off) d))"
proof -
  from assms have "unat off + unat n < 2 ^ 32" by simp
  then have "unat (off + n) = unat off + unat n"
    by (simp add: unat_word_ariths)
  with assms show ?thesis by (simp add: slice_def)
qed

text \<open>
  C8: an all-zero import descriptor ends the walk with success. Whenever the \<open>size\<close>
  bytes at the directory's file offset lie inside the file, are at least the 20 bytes of
  one descriptor, and the first 20 of them are zero, \<open>parseImportDirectory\<close> returns
  no error and leaves the import list as it was: empty when it was empty.
\<close>

theorem C8_zero_descriptor_ends_the_walk:
  assumes inside: "unat (getOffsetFromRva pe rva) + unat size' \<le> length (data pe)"
    and small: "length (data pe) < 2 ^ 32"
    and whole: "20 \<le> unat size'"
    and zeros: "take 20 (drop (unat (getOffsetFromRva pe rva)) (data pe)) = replicate 20 0"
  shows "parseImportDirectory pe rva size' Imports = Some (Ok (), Imports)"
proof -
  let ?buf = "take (unat size') (drop (unat (getOffsetFromRva pe rva)) (data pe))"
  have len: "20 \<le> length ?buf" using inside whole by simp
  have first: "take 20 ?buf = replicate 20 0" using whole zeros by (simp add: min_def)
  have "readDescriptor pe rva size' = Ok zeroDescriptor"
    using len first
    by (simp add: readDescriptor_def slice_window [OF inside small] binaryRead_def decode_zeros)
  then show ?thesis
    by (subst parseImportDirectory.simps) simp
qed

theorem C8_zero_descriptor_witness:
  "parseImportDirectory (image (replicate 20 0) noNames) 0 20 [] = Some (Ok (), [])"
  by (rule C8_zero_descriptor_ends_the_walk) (simp_all add: image_def)

section \<open>The bound on the thunk tables (C7)\<close>

lemma thunkMaxLen_after:
  "rva \<le> OriginalFirstThunk d \<Longrightarrow> rva \<le> FirstThunk d \<Longrightarrow>
     thunkMaxLen bytes fileOffset rva d = len32 bytes - fileOffset"
  by (auto simp: thunkMaxLen_def)

lemma thunkMaxLen_before:
  assumes "OriginalFirstThunk d < rva" and "FirstThunk d < rva"
  shows "thunkMaxLen bytes fileOffset rva d = rva - min (OriginalFirstThunk d) (FirstThunk d)"
proof (cases "OriginalFirstThunk d \<le> FirstThunk d")
  case True
  with assms have "rva - FirstThunk d \<le> rva - OriginalFirstThunk d"
    by unat_arith
  with assms True show ?thesis
    by (auto simp: thunkMaxLen_def Max_def min_def)
next
  case False
  with assms have "rva - OriginalFirstThunk d < rva - FirstThunk d"
    by unat_arith
  with assms False show ?thesis
    by (auto simp: thunkMaxLen_def Max_def min_def)
qed

text \<open>
  C7 says that each of the two thunk-table reads of a descriptor gets a bound of its own:
  the rest of the file when that table starts after the descriptor cursor, and the
  distance from that table's start to the cursor when it starts before, so that a backward
  RVA cannot make the table run to the end of the file. The walker computes one
  \<open>maxLen\<close>, the larger of the two distances, and both reads get it. In the file
  \<open>backwardTables\<close> the walk that starts at RVA 20 reads the descriptor
  \<open>backwardDescriptor\<close>; the cursor is then at RVA 40, the lookup table starts at RVA 14,
  26 bytes before the cursor, and the address table at RVA 4. Read with the bound 26 the
  lookup table ends at the cursor with seven entries. The walker reads it with the bound
  36, the distance of the address table: the read goes on past the cursor to the end of
  the file, where the slice of the next entry is out of range, and the call panics.
\<close>

theorem C7_nearer_table_counterexample:
  "readDescriptor (image backwardTables noNames) 20 20 = Ok backwardDescriptor \<and>
   backwardDescriptor \<noteq> zeroDescriptor \<and>
   OriginalFirstThunk backwardDescriptor < 20 + 20 \<and>
   FirstThunk backwardDescriptor < 20 + 20 \<and>
   20 + 20 - OriginalFirstThunk backwardDescriptor = 26 \<and>
   getImportTable32 (image backwardTables noNames) 14 26
     = Some (Ok [0x10000, 0xE0000, 0x10000, 0x10000, 0x10000, 0x40000, 0x10000]) \<and>
   getImportTable32 (image backwardTables noNames) 14 36 = Some Panic \<and>
   parseImportDirectory (image backwardTables noNames) 20 20 [] = Some (Panic, [])"
proof (intro conjI)
  show "readDescriptor (image backwardTables noNames) 20 20 = Ok backwardDescriptor"
    by (simp add: reader_defs readDescriptor_def decodeDescriptor_def backwardTables_def
        backwardDescriptor_def)
  show "backwardDescriptor \<noteq> zeroDescriptor"
    by (simp add: backwardDescriptor_def zeroDescriptor_def)
  show "OriginalFirstThunk backwardDescriptor < 20 + 20"
    by (simp add: backwardDescriptor_def)
  show "FirstThunk backwardDescriptor < 20 + 20"
    by (simp add: backwardDescriptor_def)
  show "20 + 20 - OriginalFirstThunk backwardDescriptor = 26"
    by (simp add: backwardDescriptor_def)
  show "getImportTable32 (image backwardTables noNames) 14 26
     = Some (Ok [0x10000, 0xE0000, 0x10000, 0x10000, 0x10000, 0x40000, 0x10000])"
    by (simp add: reader_defs backwardTables_def)
  show "getImportTable32 (image backwardTables noNames) 14 36 = Some Panic"
    by (simp add: reader_defs backwardTables_def)
  show "parseImportDirectory (image backwardTables noNames) 20 20 [] = Some (Panic, [])"
    by (simp add: reader_defs walker_defs backwardTables_def)
qed

text \<open>
  C7 as amended: for every non-terminal descriptor one bound is computed and passed
  unchanged to both of its thunk-table reads. Let \<open>d\<close> be the descriptor that the walk
  reads at \<open>rva\<close>, not the zero descriptor, so that the cursor moves to \<open>rva + 20\<close>,
  and let \<open>m\<close> be the length of the file minus the file offset of the descriptor when
  neither table starts before the cursor, and the distance from the earlier of the two
  starts to the cursor (the larger of the two distances) when both tables start before
  it. Then the walk from \<open>rva\<close> is: the read of the lookup table at
  \<open>OriginalFirstThunk d\<close> with the bound \<open>m\<close>, the read of the address table at
  \<open>FirstThunk d\<close> with the same \<open>m\<close>, the resolution of the two tables, and the walk
  from \<open>rva + 20\<close>; whatever the first of these that fails returns is what the call
  returns. This holds in both widths.
\<close>

theorem C7_one_bound_for_both_tables:
  assumes desc: "readDescriptor pe rva size' = Ok d"
    and nonzero: "d \<noteq> zeroDescriptor"
    and bound: "(rva + 20 \<le> OriginalFirstThunk d \<and> rva + 20 \<le> FirstThunk d \<and>
                   m = len32 (data pe) - getOffsetFromRva pe rva) \<or>
                (OriginalFirstThunk d < rva + 20 \<and> FirstThunk d < rva + 20 \<and>
                   m = rva + 20 - min (OriginalFirstThunk d) (FirstThunk d))"
  shows "parseImportDirectory pe rva size' Imports =
     (case
        (if Is64 pe then
           (case getImportTable64 pe (OriginalFirstThunk d) m of
              None \<Rightarrow> None
            | Some Panic \<Rightarrow> Some Panic
            | Some (Err e) \<Rightarrow> Some (Err e)
            | Some (Ok ilt) \<Rightarrow>
               (case getImportTable64 pe (FirstThunk d) m of
                  None \<Rightarrow> None
                | Some Panic \<Rightarrow> Some Panic
                | Some (Err e) \<Rightarrow> Some (Err e)
                | Some (Ok iat) \<Rightarrow> Some (resolveImports64 pe d ilt iat)))
         else
           (case getImportTable32 pe (OriginalFirstThunk d) m of
              None \<Rightarrow> None
            | Some Panic \<Rightarrow> Some Panic
            | Some (Err e) \<Rightarrow> Some (Err e)
            | Some (Ok ilt) \<Rightarrow>
               (case getImportTable32 pe (FirstThunk d) m of
                  None \<Rightarrow> None
                | Some Panic \<Rightarrow> Some Panic
                | Some (Err e) \<Rightarrow> Some (Err e)
                | Some (Ok iat) \<Rightarrow> Some (resolveImports32 pe d ilt iat)))) of
        None \<Rightarrow> None
      | Some Panic \<Rightarrow> Some (Panic, Imports)
      | Some (Err e) \<Rightarrow> Some (Err e, Imports)
      | Some (Ok importedFunctions) \<Rightarrow>
          parseImportDirectory pe (rva + 20) size'
            (if IsValidDosFilename pe (getStringAtRVA pe (ImageImportDescriptor.Name d))
             then Imports @ [newImport pe rva d importedFunctions] else Imports))"
proof -
  have m: "thunkMaxLen (data pe) (getOffsetFromRva pe rva) (rva + 20) d = m"
    using bound thunkMaxLen_after thunkMaxLen_before by blast
  show ?thesis
    by (subst parseImportDirectory.simps)
       (simp add: desc nonzero m parseImports_def parseImports32_def parseImports64_def
          split: option.splits outcome.splits)
qed

theorem C7_one_bound_witness:
  "parseImportDirectory (image backwardTables noNames) 20 20 [] = Some (Panic, []) \<and>
   parseImportDirectory (image forwardTables libraryName) 0 20 [] =
     Some (Ok (), [\<lparr> Import.Offset = 0, Import.Name = ''A.DLL'',
                      Functions = [\<lparr> ImportFunction.Name = [], Hint = 0,
                                      ImportFunction.Offset = 0, ByOrdinal = True,
                                      Ordinal = 1, Address = 0x400030, Bound = 0 \<rparr>],
                      Descriptor = forwardDescriptor \<rparr>])"
proof
  have a: "readDescriptor (image backwardTables noNames) 20 20 = Ok backwardDescriptor"
    by (simp add: reader_defs readDescriptor_def decodeDescriptor_def backwardTables_def
        backwardDescriptor_def)
  have b: "backwardDescriptor \<noteq> zeroDescriptor"
    by (simp add: backwardDescriptor_def zeroDescriptor_def)
  have c: "getImportTable32 (image backwardTables noNames) 14 36 = Some Panic"
    by (simp add: reader_defs backwardTables_def)
  have i: "\<not> Is64 (image backwardTables noNames)"
    by (simp add: image_def)
  show "parseImportDirectory (image backwardTables noNames) 20 20 [] = Some (Panic, [])"
    using C7_one_bound_for_both_tables [OF a b, of 36 "[]"] c i
    by (simp add: backwardDescriptor_def)
next
  let ?pe = "image forwardTables libraryName"
  have a: "readDescriptor ?pe 0 20 = Ok forwardDescriptor"
    by (simp add: reader_defs readDescriptor_def decodeDescriptor_def forwardTables_def
        forwardDescriptor_def)
  have b: "forwardDescriptor \<noteq> zeroDescriptor"
    by (simp add: forwardDescriptor_def zeroDescriptor_def)
  have l: "len32 (data ?pe) - getOffsetFromRva ?pe 0 = 56"
    by (simp add: image_def len32_def forwardTables_def)
  have i: "\<not> Is64 ?pe"
    by (simp add: image_def)
  have ilt: "getImportTable32 ?pe 40 56 = Some (Ok [0x80000001])"
    by (simp add: reader_defs forwardTables_def)
  have iat: "getImportTable32 ?pe 48 56 = Some (Ok [0x80000001])"
    by (simp add: reader_defs forwardTables_def)
  have fns: "resolveImports32 ?pe forwardDescriptor [0x80000001] [0x80000001] =
      Ok [\<lparr> ImportFunction.Name = [], Hint = 0, ImportFunction.Offset = 0, ByOrdinal = True,
             Ordinal = 1, Address = 0x400030, Bound = 0 \<rparr>]"
    by (simp add: resolver_defs len32_def imageOrdinalFlag32_def image_def
        forwardDescriptor_def word_less_nat_alt)
  have name: "IsValidDosFilename ?pe
      (getStringAtRVA ?pe (ImageImportDescriptor.Name forwardDescriptor))"
    by (simp add: image_def forwardDescriptor_def libraryName_def)
  have z: "readDescriptor ?pe 20 20 = Ok zeroDescriptor"
    by (simp add: reader_defs readDescriptor_def decodeDescriptor_def forwardTables_def
        zeroDescriptor_def)
  have last: "parseImportDirectory ?pe 20 20 Imports = Some (Ok (), Imports)" for Imports
    by (subst parseImportDirectory.simps) (simp add: z)
  have d: "OriginalFirstThunk forwardDescriptor = 40" "FirstThunk forwardDescriptor = 48"
    by (simp_all add: forwardDescriptor_def)
  have "parseImportDirectory ?pe 0 20 [] =
      Some (Ok (), [newImport ?pe 0 forwardDescriptor
                      [\<lparr> ImportFunction.Name = [], Hint = 0, ImportFunction.Offset = 0,
                          ByOrdinal = True, Ordinal = 1, Address = 0x400030, Bound = 0 \<rparr>]])"
    using C7_one_bound_for_both_tables [OF a b, of 56 "[]"] l i
    by (simp add: d ilt iat fns name last word_le_nat_alt)
  then show "parseImportDirectory ?pe 0 20 [] =
     Some (Ok (), [\<lparr> Import.Offset = 0, Import.Name = ''A.DLL'',
                      Functions = [\<lparr> ImportFunction.Name = [], Hint = 0,
                                      ImportFunction.Offset = 0, ByOrdinal = True,
                                      Ordinal = 1, Address = 0x400030, Bound = 0 \<rparr>],
                      Descriptor = forwardDescriptor \<rparr>])"
    by (simp add: newImport_def image_def forwardDescriptor_def libraryName_def)
qed

section \<open>The bound-address comparison (C9)\<close>






section \<open>Entries with invalid names (C3)\<close>

lemma len32_small: "length t < 2 ^ 32 \<Longrightarrow> unat (len32 t) = length t"
  by (simp add: len32_def unat_of_nat)

lemma invalid_streak32:
  assumes bad: "\<forall>t \<in> set table. \<exists>imp. readEntry32 pe t = Ok imp \<and> ImportFunction.Name imp = invalid"
    and len: "length table < 2 ^ 32"
  shows "unat idx \<le> length table \<Longrightarrow> idx \<le> 1001 \<Longrightarrow>
     parseImports32_loop pe d ilt [] table idx idx fns =
       (if length table \<le> 1001 then Ok fns else Err TooManyInvalidNames)"
proof (induction "length table - unat idx" arbitrary: idx)
  case 0
  then have e: "unat idx = length table" by simp
  then have "\<not> idx < len32 table"
    using len by (simp add: word_less_nat_alt len32_small)
  moreover have "length table \<le> 1001"
    using e 0(3) by (simp add: word_le_nat_alt)
  ultimately show ?case
    by (subst parseImports32_loop.simps) simp
next
  case (Suc n)
  then have lt: "unat idx < length table" by simp
  then have head: "idx < len32 table"
    using len by (simp add: word_less_nat_alt len32_small)
  from lt have "table ! unat idx \<in> set table" by simp
  with bad obtain imp where imp: "readEntry32 pe (table ! unat idx) = Ok imp"
    "ImportFunction.Name imp = invalid" by blast
  have ix: "index table idx = Ok (table ! unat idx)"
    using lt by (simp add: index_def)
  have b: "boundAddress32 ilt [] idx = Ok 0"
    by (simp add: boundAddress32_def)
  show ?case
  proof (cases "idx > 1000")
    case True
    with Suc.prems have "unat idx = 1001"
      by (simp add: word_le_nat_alt word_less_nat_alt)
    with lt have "\<not> length table \<le> 1001" by simp
    with True show ?thesis
      by (subst parseImports32_loop.simps) (simp add: head ix imp b invalid_def)
  next
    case False
    then have small: "unat idx \<le> 1000" by (simp add: word_less_nat_alt)
    then have u: "unat (idx + 1) = unat idx + 1"
      by (simp add: unat_word_ariths)
    have "parseImports32_loop pe d ilt [] table (idx + 1) (idx + 1) fns =
       (if length table \<le> 1001 then Ok fns else Err TooManyInvalidNames)"
    proof (rule Suc.hyps(1))
      show "n = length table - unat (idx + 1)" using Suc.hyps(2) u by simp
      show "unat (idx + 1) \<le> length table" using lt u by simp
      show "idx + 1 \<le> 1001" using small u by (simp add: word_le_nat_alt)
    qed
    with False show ?thesis
      by (subst parseImports32_loop.simps) (simp add: head ix imp b invalid_def)
  qed
qed


lemma drop_repeated:
  "length e = m \<Longrightarrow> k \<le> n \<Longrightarrow>
     drop (m * k) (concat (replicate n e)) = concat (replicate (n - k) e)"
proof (induction k arbitrary: n)
  case 0
  then show ?case by simp
next
  case (Suc k)
  then obtain j where n: "n = Suc j" by (cases n) auto
  with Suc show ?case by simp
qed

lemma length_repeated: "length (concat (replicate n e)) = n * length e"
  by (induction n) simp_all

lemma streak_slice:
  assumes "k \<le> n" and "length e = 4"
  shows "take 4 (drop (length pre + 4 * k) (pre @ concat (replicate n e) @ [0, 0, 0, 0 :: byte]))
           = (if k < n then e else [0, 0, 0, 0])"
proof -
  have "drop (length pre + 4 * k) (pre @ concat (replicate n e) @ [0, 0, 0, 0 :: byte])
          = drop (4 * k) (concat (replicate n e)) @ [0, 0, 0, 0]"
    using assms by (simp add: length_repeated)
  also have "\<dots> = concat (replicate (n - k) e) @ [0, 0, 0, 0]"
    using assms by (simp add: drop_repeated)
  finally have d: "drop (length pre + 4 * k) (pre @ concat (replicate n e) @ [0, 0, 0, 0 :: byte])
          = concat (replicate (n - k) e) @ [0, 0, 0, 0]" .
  show ?thesis
  proof (cases "k < n")
    case True
    then obtain j where "n - k = Suc j" by (cases "n - k") auto
    with True assms show ?thesis unfolding d by simp
  next
    case False
    with assms have "n - k = 0" by simp
    then show ?thesis unfolding d by simp
  qed
qed

lemma unat_plus:
  "unat (a :: uint32) + unat b < 2 ^ 32 \<Longrightarrow> unat (a + b) = unat a + unat b"
  by (simp add: unat_word_ariths)


lemma reader_end:
  assumes pe: "pe = image (pre @ concat (replicate n [4, 0, 0, 0]) @ [0, 0, 0, 0]) names"
    and size: "length pre + 4 * n + 4 < 2 ^ 32"
    and bound: "length pre + 4 * n + 4 \<le> unat start + unat maxLen"
      "unat start + unat maxLen < 2 ^ 32"
    and pos: "unat rva = length pre + 4 * n"
    and rep: "unat rep < 0x8000000"
  shows "getImportTable32_loop pe start maxLen (NOT 0) 0 rva rep seen acc = Some (Ok acc)"
proof -
  let ?bytes = "pre @ concat (replicate n [4, 0, 0, 0]) @ [0, 0, 0, 0 :: byte]"
  have len: "length ?bytes = length pre + 4 * n + 4" by (simp add: length_repeated)
  have end': "unat (start + maxLen) = unat start + unat maxLen"
    using bound(2) by (rule unat_plus)
  have head: "\<not> start + maxLen \<le> rva"
    using bound pos end' by (simp add: word_le_nat_alt)
  have rp: "\<not> maxAddressSpread \<le> rep"
    using rep by (simp add: word_le_nat_alt maxAddressSpread_def)
  have sp: "\<not> maxAddressSpread < 0 - NOT 0"
    by (simp add: maxAddressSpread_def word_less_nat_alt)
  have sl: "slice ?bytes rva (rva + 4) = Some (take (unat (4 :: uint32)) (drop (unat rva) ?bytes))"
    using pos size len by (intro slice_window) simp_all
  have buf: "take 4 (drop (unat rva) ?bytes) = [0, 0, 0, 0]"
    using streak_slice [of n n "[4, 0, 0, 0]" pre] pos by simp
  have sl': "slice (data pe) (getOffsetFromRva pe rva) (getOffsetFromRva pe rva + 4)
      = Some [0, 0, 0, 0]"
    using sl buf by (simp add: pe image_def)
  have rd: "binaryRead 4 [0, 0, 0, 0 :: byte] = Ok [0, 0, 0, 0]"
    by (simp add: binaryRead_def)
  have z: "le32 [0, 0, 0, 0] = 0" by (simp add: le32_def)
  show ?thesis
    by (subst getImportTable32_loop.simps) (simp only: head rp sp sl' rd z if_False if_True
      option.case outcome.case simp_thms)
qed


lemma reader_step:
  assumes pe: "pe = image (pre @ concat (replicate n [4, 0, 0, 0]) @ [0, 0, 0, 0]) names"
    and size: "length pre + 4 * n + 4 < 2 ^ 32"
    and start: "4 < start"
    and bound: "length pre + 4 * n + 4 \<le> unat start + unat maxLen"
      "unat start + unat maxLen < 2 ^ 32"
    and k: "k < n"
    and pos: "unat rva = length pre + 4 * k"
    and rep: "unat rep < 0x8000000"
  shows "getImportTable32_loop pe start maxLen (NOT 0) 0 rva rep seen acc =
     getImportTable32_loop pe start maxLen (NOT 0) 0 (rva + 4)
       (if 4 \<in> seen then rep + 1 else rep) (insert 4 seen) (acc @ [4])"
proof -
  let ?bytes = "pre @ concat (replicate n [4, 0, 0, 0]) @ [0, 0, 0, 0 :: byte]"
  have len: "length ?bytes = length pre + 4 * n + 4" by (simp add: length_repeated)
  have end': "unat (start + maxLen) = unat start + unat maxLen"
    using bound(2) by (rule unat_plus)
  have head: "\<not> start + maxLen \<le> rva"
    using bound pos k end' by (simp add: word_le_nat_alt)
  have rp: "\<not> maxAddressSpread \<le> rep"
    using rep by (simp add: word_le_nat_alt maxAddressSpread_def)
  have sp: "\<not> maxAddressSpread < 0 - NOT 0"
    by (simp add: maxAddressSpread_def word_less_nat_alt)
  have sl: "slice ?bytes rva (rva + 4) = Some (take (unat (4 :: uint32)) (drop (unat rva) ?bytes))"
    using pos k size len by (intro slice_window) simp_all
  have buf: "take 4 (drop (unat rva) ?bytes) = [4, 0, 0, 0]"
    using streak_slice [of k n "[4, 0, 0, 0]" pre] pos k by simp
  have sl': "slice (data pe) (getOffsetFromRva pe rva) (getOffsetFromRva pe rva + 4)
      = Some [4, 0, 0, 0]"
    using sl buf by (simp add: pe image_def)
  have rd: "binaryRead 4 [4, 0, 0, 0 :: byte] = Ok [4, 0, 0, 0]"
    by (simp add: binaryRead_def)
  have z: "le32 [4, 0, 0, 0] = 4" by (simp add: le32_def)
  have nz: "(4 :: uint32) \<noteq> 0" by simp
  have ov: "\<not> (start \<le> 4 \<and> 4 \<le> rva)"
    using start by (simp add: word_le_nat_alt word_less_nat_alt)
  have fl: "\<not> 0 < (4 :: uint32) AND imageOrdinalFlag32"
    by (simp add: imageOrdinalFlag32_def)
  have ins: "4 \<in> seen \<Longrightarrow> insert 4 seen = seen" by auto
  have "getImportTable32_loop pe start maxLen (NOT 0) 0 rva rep seen acc =
     (if 4 \<in> seen
      then getImportTable32_loop pe start maxLen (NOT 0) 0 (rva + 4) (rep + 1) seen (acc @ [4])
      else getImportTable32_loop pe start maxLen (NOT 0) 0 (rva + 4) rep (insert 4 seen)
             (acc @ [4]))"
    by (subst getImportTable32_loop.simps)
       (simp only: head rp sp sl' rd z nz ov fl if_False if_True option.case outcome.case
          simp_thms)
  then show ?thesis
    by (cases "4 \<in> seen") (simp_all add: insert_absorb)
qed


lemma reader_streak:
  assumes pe: "pe = image (pre @ concat (replicate n [4, 0, 0, 0]) @ [0, 0, 0, 0]) names"
    and size: "length pre + 4 * n + 4 < 2 ^ 32"
    and start: "4 < start"
    and bound: "length pre + 4 * n + 4 \<le> unat start + unat maxLen"
      "unat start + unat maxLen < 2 ^ 32"
  shows "k \<le> n \<Longrightarrow> unat rva = length pre + 4 * k \<Longrightarrow> unat rep + (n - k) < 0x8000000 \<Longrightarrow>
     getImportTable32_loop pe start maxLen (NOT 0) 0 rva rep seen acc
       = Some (Ok (acc @ replicate (n - k) 4))"
proof (induction "n - k" arbitrary: k rva rep seen acc)
  case 0
  then have "k = n" by simp
  with 0 show ?case
    using reader_end [OF pe size bound, of rva rep seen acc] by simp
next
  case (Suc m)
  then have k: "k < n" by simp
  have "unat rva + unat (4 :: uint32) < 2 ^ 32"
    using Suc.prems(2) k size by simp
  then have "unat (rva + 4) = unat rva + unat (4 :: uint32)"
    by (rule unat_plus)
  then have nx: "unat (rva + 4) = length pre + 4 * Suc k"
    using Suc.prems(2) by simp
  have "unat rep + unat (1 :: uint32) < 2 ^ 32"
    using Suc.prems(3) by simp
  then have "unat (rep + 1) = unat rep + unat (1 :: uint32)"
    by (rule unat_plus)
  then have r1: "unat (if 4 \<in> seen then rep + 1 else rep) + (n - Suc k) < 0x8000000"
    using Suc.prems(3) k by (cases "4 \<in> seen") simp_all
  have m: "m = n - Suc k" using Suc.hyps(2) by simp
  have sk: "Suc k \<le> n" using k by simp
  have rest: "replicate (n - k) (4 :: uint32) = 4 # replicate (n - Suc k) 4"
    using k by (cases "n - k") (simp_all add: Suc_diff_Suc)
  have r: "unat rep < 0x8000000" using Suc.prems(3) by simp
  have "getImportTable32_loop pe start maxLen (NOT 0) 0 rva rep seen acc =
     getImportTable32_loop pe start maxLen (NOT 0) 0 (rva + 4)
       (if 4 \<in> seen then rep + 1 else rep) (insert 4 seen) (acc @ [4])"
    using pe size start bound k Suc.prems(2) r by (rule reader_step)
  also have "\<dots> = Some (Ok ((acc @ [4]) @ replicate (n - Suc k) 4))"
    using m sk nx r1 by (rule Suc.hyps(1))
  finally show ?case by (simp only: rest append_Cons append_Nil append_assoc)
qed


lemma invalidNames_layout:
  "invalidNames =
     ([40, 0, 0, 0, 0, 0, 0, 0, 0, 0, 0, 0, 112, 0, 0, 0, 204, 15, 0, 0] @ replicate 20 0) @
     concat (replicate 1001 [4, 0, 0, 0]) @ [0, 0, 0, 0]"
  by (simp add: invalidNames_def)

lemma invalidNames_length: "length invalidNames = 4048"
  by (simp add: invalidNames_def length_repeated)

lemma invalidNames_descriptor:
  "readDescriptor (image invalidNames libraryName) 0 20 = Ok invalidNamesDescriptor"
proof -
  have "slice invalidNames 0 (0 + 20) = Some (take (unat (20 :: uint32)) (drop (unat (0 :: uint32)) invalidNames))"
    by (rule slice_window) (simp_all add: invalidNames_length)
  then have "slice invalidNames 0 20
      = Some [40, 0, 0, 0, 0, 0, 0, 0, 0, 0, 0, 0, 112, 0, 0, 0, 204, 15, 0, 0]"
    by (simp add: invalidNames_def)
  then show ?thesis
    by (simp add: readDescriptor_def image_def binaryRead_def decodeDescriptor_def le32_def
        invalidNamesDescriptor_def)
qed

lemma invalidNames_end:
  "readDescriptor (image invalidNames libraryName) 20 20 = Ok zeroDescriptor"
proof -
  have "slice invalidNames 20 (20 + 20) = Some (take (unat (20 :: uint32)) (drop (unat (20 :: uint32)) invalidNames))"
    by (rule slice_window) (simp_all add: invalidNames_length)
  then have "slice invalidNames 20 40 = Some (replicate 20 0)"
    by (simp add: invalidNames_def)
  then show ?thesis
    by (simp add: readDescriptor_def image_def binaryRead_def decode_zeros)
qed

lemma invalidNames_lookup:
  "getImportTable32 (image invalidNames libraryName) 40 4048 = Some (Ok (replicate 1001 4))"
proof -
  have "getImportTable32_loop (image invalidNames libraryName) 40 4048 (NOT 0) 0 40 0 {} []
          = Some (Ok ([] @ replicate (1001 - 0) 4))"
    by (rule reader_streak [where pre = "[40, 0, 0, 0, 0, 0, 0, 0, 0, 0, 0, 0, 112, 0, 0, 0, 204, 15, 0, 0] @ replicate 20 0"
          and names = libraryName])
       (simp_all add: invalidNames_layout word_less_nat_alt)
  then show ?thesis by (simp add: getImportTable32_def)
qed

lemma invalidNames_address:
  "getImportTable32 (image invalidNames libraryName) 4044 4048 = Some (Ok [])"
  unfolding getImportTable32_def
  by (rule reader_end [where pre = "[40, 0, 0, 0, 0, 0, 0, 0, 0, 0, 0, 0, 112, 0, 0, 0, 204, 15, 0, 0] @ replicate 20 0"
          and names = libraryName and n = 1001])
     (simp_all add: invalidNames_layout)

lemma invalidNames_entry:
  "readEntry32 (image invalidNames libraryName) 4 =
     Ok (emptyImportFunction \<lparr> ImportFunction.Name := invalid, Hint := 0,
           ImportFunction.Offset := 4, ByOrdinal := False \<rparr>)"
  by (simp add: readEntry32_def image_def imageOrdinalFlag32_def addressMask32_def
      invalidNames_length libraryName_def invalidNames_def le16_def)

lemma invalidNames_resolved:
  "resolveImports32 (image invalidNames libraryName) invalidNamesDescriptor (replicate 1001 4) []
     = Ok []"
proof -
  have "parseImports32_loop (image invalidNames libraryName) invalidNamesDescriptor
          (replicate 1001 4) [] (replicate 1001 4) 0 0 []
        = (if length (replicate 1001 (4 :: uint32)) \<le> 1001 then Ok [] else Err TooManyInvalidNames)"
    by (rule invalid_streak32) (simp_all add: invalidNames_entry emptyImportFunction_def)
  then show ?thesis by (simp add: resolveImports32_def)
qed

text \<open>
  C3 says that the resolution of a table aborts with the too-many-invalid-names error
  when a thousand or more invalid names come in a row with no valid entry, so that a table
  of 1001 entries with invalid names fails. The resolver tests
  \<^verbatim>\<open>numInvalid > 1000 && numInvalid == idx\<close> before it counts the entry at hand, so
  the test first holds at the entry of index 1001, the 1002nd of the table (the comment
  above the test speaks of 1000 invalid entries). In the file \<open>invalidNames\<close> the lookup
  table has 1001 entries, the name of each is invalid, and the call returns no error: the
  library is imported with an empty list of functions.
\<close>

theorem C3_thousand_and_one_invalid_names_are_accepted:
  "getImportTable32 (image invalidNames libraryName) 40 4048 = Some (Ok (replicate 1001 4)) \<and>
   readEntry32 (image invalidNames libraryName) 4 =
     Ok (emptyImportFunction \<lparr> ImportFunction.Name := invalid, Hint := 0,
           ImportFunction.Offset := 4, ByOrdinal := False \<rparr>) \<and>
   parseImportDirectory (image invalidNames libraryName) 0 20 [] =
     Some (Ok (), [\<lparr> Import.Offset = 0, Import.Name = ''A.DLL'', Functions = [],
                      Descriptor = invalidNamesDescriptor \<rparr>])"
proof (intro conjI)
  let ?pe = "image invalidNames libraryName"
  show "getImportTable32 ?pe 40 4048 = Some (Ok (replicate 1001 4))"
    by (rule invalidNames_lookup)
  show "readEntry32 ?pe 4 =
     Ok (emptyImportFunction \<lparr> ImportFunction.Name := invalid, Hint := 0,
           ImportFunction.Offset := 4, ByOrdinal := False \<rparr>)"
    by (rule invalidNames_entry)
  have len: "thunkMaxLen (data ?pe) (getOffsetFromRva ?pe 0) (0 + 20) invalidNamesDescriptor = 4048"
    by (simp add: thunkMaxLen_def invalidNamesDescriptor_def image_def len32_def
        invalidNames_length word_less_nat_alt)
  have fns: "parseImports ?pe invalidNamesDescriptor 4048 = Some (Ok [])"
    using invalidNames_lookup invalidNames_address invalidNames_resolved
    by (simp add: parseImports_def parseImports32_def image_def invalidNamesDescriptor_def)
  have name: "IsValidDosFilename ?pe
      (getStringAtRVA ?pe (ImageImportDescriptor.Name invalidNamesDescriptor))"
    by (simp add: image_def invalidNamesDescriptor_def libraryName_def)
  have nz: "invalidNamesDescriptor \<noteq> zeroDescriptor"
    by (simp add: invalidNamesDescriptor_def zeroDescriptor_def)
  have last: "parseImportDirectory ?pe (0 + 20) 20
        [newImport ?pe 0 invalidNamesDescriptor []]
      = Some (Ok (), [newImport ?pe 0 invalidNamesDescriptor []])"
    by (subst parseImportDirectory.simps) (simp add: invalidNames_end)
  have "parseImportDirectory ?pe 0 20 [] = Some (Ok (), [newImport ?pe 0 invalidNamesDescriptor []])"
    by (subst parseImportDirectory.simps)
       (simp only: invalidNames_descriptor nz len fns name last outcome.case option.case
          if_False if_True simp_thms append_Nil)
  then show "parseImportDirectory ?pe 0 20 [] =
     Some (Ok (), [\<lparr> Import.Offset = 0, Import.Name = ''A.DLL'', Functions = [],
                      Descriptor = invalidNamesDescriptor \<rparr>])"
    by (simp add: newImport_def image_def invalidNamesDescriptor_def libraryName_def)
qed

section \<open>The size of the directory (C10)\<close>

lemma next_rva:
  "(rva :: uint32) + 20 * word_of_nat (Suc k) = rva + 20 + 20 * word_of_nat k"
  by (simp add: algebra_simps)

lemma keptImports_Suc:
  "keptImports pe rva d fns (Suc n) =
     (if IsValidDosFilename pe (getStringAtRVA pe (ImageImportDescriptor.Name (d 0)))
      then [newImport pe rva (d 0) (fns 0)] else [])
     @ keptImports pe (rva + 20) (\<lambda>k. d (Suc k)) (\<lambda>k. fns (Suc k)) n"
proof -
  have "[0..<Suc n] = 0 # map Suc [0..<n]"
    by (simp add: upt_conv_Cons map_Suc_upt del: upt_Suc)
  then show ?thesis
    by (simp add: keptImports_def comp_def next_rva del: upt_Suc of_nat_Suc cong: if_cong)
qed


lemma walk_skips:
  assumes steps: "\<forall>k<n. readDescriptor pe (rva + 20 * word_of_nat k) size' = Ok (d k) \<and>
       d k \<noteq> zeroDescriptor \<and>
       parseImports pe (d k)
         (thunkMaxLen (data pe) (getOffsetFromRva pe (rva + 20 * word_of_nat k))
            (rva + 20 * word_of_nat k + 20) (d k)) = Some (Ok (fns k))"
  shows "parseImportDirectory pe rva size' Imports =
           parseImportDirectory pe (rva + 20 * word_of_nat n) size'
             (Imports @ keptImports pe rva d fns n)"
  using steps
proof (induction n arbitrary: rva Imports d fns)
  case 0
  show ?case by (simp add: keptImports_def)
next
  case (Suc n)
  from Suc.prems have here: "readDescriptor pe rva size' = Ok (d 0)" "d 0 \<noteq> zeroDescriptor"
    "parseImports pe (d 0) (thunkMaxLen (data pe) (getOffsetFromRva pe rva) (rva + 20) (d 0))
       = Some (Ok (fns 0))"
    by (drule_tac x = 0 in spec, simp)+
  have later: "\<forall>k<n. readDescriptor pe (rva + 20 + 20 * word_of_nat k) size' = Ok (d (Suc k)) \<and>
       d (Suc k) \<noteq> zeroDescriptor \<and>
       parseImports pe (d (Suc k))
         (thunkMaxLen (data pe) (getOffsetFromRva pe (rva + 20 + 20 * word_of_nat k))
            (rva + 20 + 20 * word_of_nat k + 20) (d (Suc k))) = Some (Ok (fns (Suc k)))"
  proof (intro allI impI)
    fix k assume "k < n"
    then have "Suc k < Suc n" by simp
    with Suc.prems show "readDescriptor pe (rva + 20 + 20 * word_of_nat k) size' = Ok (d (Suc k)) \<and>
       d (Suc k) \<noteq> zeroDescriptor \<and>
       parseImports pe (d (Suc k))
         (thunkMaxLen (data pe) (getOffsetFromRva pe (rva + 20 + 20 * word_of_nat k))
            (rva + 20 + 20 * word_of_nat k + 20) (d (Suc k))) = Some (Ok (fns (Suc k)))"
      by (drule_tac x = "Suc k" in spec) (simp add: algebra_simps)
  qed
  note IH = Suc.IH [OF later]
  have "parseImportDirectory pe rva size' Imports =
      parseImportDirectory pe (rva + 20) size'
        (Imports @ (if IsValidDosFilename pe (getStringAtRVA pe (ImageImportDescriptor.Name (d 0)))
                    then [newImport pe rva (d 0) (fns 0)] else []))"
    by (subst parseImportDirectory.simps) (simp add: here)
  also have "\<dots> = parseImportDirectory pe (rva + 20 + 20 * word_of_nat n) size'
        ((Imports @ (if IsValidDosFilename pe (getStringAtRVA pe (ImageImportDescriptor.Name (d 0)))
                    then [newImport pe rva (d 0) (fns 0)] else []))
          @ keptImports pe (rva + 20) (\<lambda>k. d (Suc k)) (\<lambda>k. fns (Suc k)) n)"
    by (rule IH)
  finally show ?case
    by (simp only: keptImports_Suc next_rva append_assoc)
qed

text \<open>
  C10 says that the \<open>size\<close> argument does not bound the walk: descriptors are read
  until the zero descriptor is found or the read of a descriptor fails, and \<open>size\<close> is
  only the number of bytes that each read takes from the descriptor's own file offset.
  There is a third way for the walk to end: the resolution of a descriptor's imports
  fails. Both tables of the first descriptor of \<open>damagedFirst\<close> are empty, and the call
  returns the damaged-table error after that descriptor, although the descriptor that
  follows at RVA 20 can be read and is not the zero descriptor.
\<close>

theorem C10_stopped_by_a_failed_resolution:
  "readDescriptor (image damagedFirst twoNames) 0 20 = Ok damagedDescriptor \<and>
   readDescriptor (image damagedFirst twoNames) 20 20 = Ok damagedDescriptor \<and>
   damagedDescriptor \<noteq> zeroDescriptor \<and>
   parseImportDirectory (image damagedFirst twoNames) 0 20 [] = Some (Err DamagedImportTable, [])"
  by (simp add: reader_defs walker_defs resolveImports32_def damagedFirst_def
      damagedDescriptor_def)

text \<open>
  C10 as amended: the \<open>size\<close> argument does not bound the walk. Whatever \<open>size\<close>
  and \<open>n\<close> are, when the \<open>n\<close> descriptors read at \<open>rva\<close>, \<open>rva + 20\<close>, ... with
  \<open>size\<close> bytes each are not the zero descriptor and their imports are resolved, the
  walk goes on to the descriptor at \<open>rva + 20 * n\<close>, which it reads from the \<open>size\<close>
  bytes at that descriptor's own file offset, and it ends there in one of three ways: the
  read of the descriptor fails, the descriptor is the zero descriptor, or the resolution
  of its imports fails (or does not return); otherwise it goes on to the next descriptor.
  \<open>pe.Imports\<close> then holds the imports of the \<open>n\<close> descriptors.
\<close>

theorem C10_size_does_not_bound_the_walk:
  assumes steps: "\<forall>k<n. readDescriptor pe (rva + 20 * word_of_nat k) size' = Ok (d k) \<and>
       d k \<noteq> zeroDescriptor \<and>
       parseImports pe (d k)
         (thunkMaxLen (data pe) (getOffsetFromRva pe (rva + 20 * word_of_nat k))
            (rva + 20 * word_of_nat k + 20) (d k)) = Some (Ok (fns k))"
  shows "parseImportDirectory pe rva size' Imports =
     (case readDescriptor pe (rva + 20 * word_of_nat n) size' of
        Panic \<Rightarrow> Some (Panic, Imports @ keptImports pe rva d fns n)
      | Err e \<Rightarrow> Some (Err e, Imports @ keptImports pe rva d fns n)
      | Ok importDesc \<Rightarrow>
          if importDesc = zeroDescriptor
          then Some (Ok (), Imports @ keptImports pe rva d fns n)
          else
            (case parseImports pe importDesc
                    (thunkMaxLen (data pe) (getOffsetFromRva pe (rva + 20 * word_of_nat n))
                       (rva + 20 * word_of_nat n + 20) importDesc) of
               None \<Rightarrow> None
             | Some Panic \<Rightarrow> Some (Panic, Imports @ keptImports pe rva d fns n)
             | Some (Err e) \<Rightarrow> Some (Err e, Imports @ keptImports pe rva d fns n)
             | Some (Ok importedFunctions) \<Rightarrow>
                 parseImportDirectory pe (rva + 20 * word_of_nat n + 20) size'
                   (if IsValidDosFilename pe
                         (getStringAtRVA pe (ImageImportDescriptor.Name importDesc))
                    then (Imports @ keptImports pe rva d fns n)
                           @ [newImport pe (rva + 20 * word_of_nat n) importDesc importedFunctions]
                    else Imports @ keptImports pe rva d fns n)))"
proof -
  have "parseImportDirectory pe rva size' Imports =
           parseImportDirectory pe (rva + 20 * word_of_nat n) size'
             (Imports @ keptImports pe rva d fns n)"
    using steps by (rule walk_skips)
  also have "\<dots> =
     (case readDescriptor pe (rva + 20 * word_of_nat n) size' of
        Panic \<Rightarrow> Some (Panic, Imports @ keptImports pe rva d fns n)
      | Err e \<Rightarrow> Some (Err e, Imports @ keptImports pe rva d fns n)
      | Ok importDesc \<Rightarrow>
          if importDesc = zeroDescriptor
          then Some (Ok (), Imports @ keptImports pe rva d fns n)
          else
            (case parseImports pe importDesc
                    (thunkMaxLen (data pe) (getOffsetFromRva pe (rva + 20 * word_of_nat n))
                       (rva + 20 * word_of_nat n + 20) importDesc) of
               None \<Rightarrow> None
             | Some Panic \<Rightarrow> Some (Panic, Imports @ keptImports pe rva d fns n)
             | Some (Err e) \<Rightarrow> Some (Err e, Imports @ keptImports pe rva d fns n)
             | Some (Ok importedFunctions) \<Rightarrow>
                 parseImportDirectory pe (rva + 20 * word_of_nat n + 20) size'
                   (if IsValidDosFilename pe
                         (getStringAtRVA pe (ImageImportDescriptor.Name importDesc))
                    then (Imports @ keptImports pe rva d fns n)
                           @ [newImport pe (rva + 20 * word_of_nat n) importDesc importedFunctions]
                    else Imports @ keptImports pe rva d fns n)))"
    by (rule trans [OF parseImportDirectory.simps])
       (simp split: outcome.splits option.splits)
  finally show ?thesis .
qed


lemma first_two: "[0..<2] = [0, 1]"
  by (simp add: numeral_2_eq_2)

lemma twoLibraries_first:
  "readDescriptor (image twoLibraries twoNames) 0 20 = Ok libraryA"
  by (simp add: reader_defs readDescriptor_def decodeDescriptor_def twoLibraries_def libraryA_def)

lemma twoLibraries_second:
  "readDescriptor (image twoLibraries twoNames) 20 20 = Ok libraryB"
  by (simp add: reader_defs readDescriptor_def decodeDescriptor_def twoLibraries_def libraryB_def)

lemma twoLibraries_third:
  "readDescriptor (image twoLibraries twoNames) 40 20 = Ok zeroDescriptor"
  by (simp add: reader_defs readDescriptor_def decodeDescriptor_def twoLibraries_def
      zeroDescriptor_def)

lemma twoLibraries_first_imports:
  "parseImports (image twoLibraries twoNames) libraryA 96 = Some (Ok [byOrdinal 1 0x400048])"
  by (simp add: reader_defs parseImports_def parseImports32_def resolver_defs len32_def
      twoLibraries_def libraryA_def byOrdinal_def)

lemma twoLibraries_second_imports:
  "parseImports (image twoLibraries twoNames) libraryB 76 = Some (Ok [byOrdinal 2 0x400058])"
  by (simp add: reader_defs parseImports_def parseImports32_def resolver_defs len32_def
      twoLibraries_def libraryB_def byOrdinal_def)

lemma twoLibraries_bounds:
  "thunkMaxLen (data (image twoLibraries twoNames)) 0 20 libraryA = 96"
  "thunkMaxLen (data (image twoLibraries twoNames)) 20 40 libraryB = 76"
  by (simp_all add: thunkMaxLen_def len32_def image_def twoLibraries_def libraryA_def
      libraryB_def word_less_nat_alt)

text \<open>
  With \<open>size\<close> 20 the walk over \<open>twoLibraries\<close> from RVA 0 reads the descriptors at
  offsets 0 and 20 and, past \<open>rva + size\<close>, the zero descriptor at offset 40.
\<close>

theorem C10_walk_past_size_witness:
  "parseImportDirectory (image twoLibraries twoNames) 0 20 [] =
     Some (Ok (),
       [\<lparr> Import.Offset = 0, Import.Name = ''A.DLL'',
           Functions = [byOrdinal 1 0x400048], Descriptor = libraryA \<rparr>,
        \<lparr> Import.Offset = 20, Import.Name = ''B.DLL'',
           Functions = [byOrdinal 2 0x400058], Descriptor = libraryB \<rparr>])"
proof -
  let ?pe = "image twoLibraries twoNames"
  let ?d = "\<lambda>k::nat. if k = 0 then libraryA else libraryB"
  let ?fns = "\<lambda>k::nat. if k = 0 then [byOrdinal 1 0x400048] else [byOrdinal 2 0x400058]"
  have off: "getOffsetFromRva ?pe = (\<lambda>rva. rva)" by (simp add: image_def)
  have nz: "libraryA \<noteq> zeroDescriptor" "libraryB \<noteq> zeroDescriptor"
    by (simp_all add: libraryA_def libraryB_def zeroDescriptor_def)
  have steps: "\<forall>k<2. readDescriptor ?pe (0 + 20 * word_of_nat k) 20 = Ok (?d k) \<and>
       ?d k \<noteq> zeroDescriptor \<and>
       parseImports ?pe (?d k)
         (thunkMaxLen (data ?pe) (getOffsetFromRva ?pe (0 + 20 * word_of_nat k))
            (0 + 20 * word_of_nat k + 20) (?d k)) = Some (Ok (?fns k))"
  proof (intro allI impI)
    fix k :: nat assume "k < 2"
    then consider "k = 0" | "k = 1" by linarith
    then show "readDescriptor ?pe (0 + 20 * word_of_nat k) 20 = Ok (?d k) \<and>
       ?d k \<noteq> zeroDescriptor \<and>
       parseImports ?pe (?d k)
         (thunkMaxLen (data ?pe) (getOffsetFromRva ?pe (0 + 20 * word_of_nat k))
            (0 + 20 * word_of_nat k + 20) (?d k)) = Some (Ok (?fns k))"
    proof cases
      case 1
      then show ?thesis
        by (simp add: off nz twoLibraries_first twoLibraries_bounds twoLibraries_first_imports)
    next
      case 2
      then show ?thesis
        by (simp add: off nz twoLibraries_second twoLibraries_bounds twoLibraries_second_imports)
    qed
  qed
  have names: "getStringAtRVA ?pe = twoNames" "IsValidDosFilename ?pe = (\<lambda>s. s \<noteq> [])"
    by (simp_all add: image_def)
  have kept: "keptImports ?pe 0 ?d ?fns 2 =
     [\<lparr> Import.Offset = 0, Import.Name = ''A.DLL'',
           Functions = [byOrdinal 1 0x400048], Descriptor = libraryA \<rparr>,
        \<lparr> Import.Offset = 20, Import.Name = ''B.DLL'',
           Functions = [byOrdinal 2 0x400058], Descriptor = libraryB \<rparr>]"
    by (simp add: keptImports_def first_two newImport_def names off twoNames_def
        libraryA_def libraryB_def)
  show ?thesis
    using C10_size_does_not_bound_the_walk [OF steps, of "[]"]
    by (simp add: twoLibraries_third kept)
qed

end
